theory Spec2Isabelle
  imports Complex_Main "HOL-Library.List_Lexorder" "HOL-Library.Char_ord" "HOL-Library.Multiset"
  "HOL-Library.Product_Lexorder"
begin

section \<open>Python strings\<close>

text \<open>
  A Python \<open>str\<close> is modelled as a list of 8-bit characters read as the code points
  0..255 (Latin-1), so that the accented category labels of \<open>CATEGORIAS_GASTO\<close> are one
  character per letter. Within that range \<open>str.isspace\<close> holds for the code points
  9..13, 28..32, 133 and 160, \<open>str.lower\<close> moves A..Z and the capital accented letters
  192..222 (except the multiplication sign 215) up by 32, and the regular expression class
  \<open>\d\<close> holds for the digits 0..9 only.
\<close>

definition isspace :: "char \<Rightarrow> bool" where
  "isspace c = (let n = (of_char c :: nat) in
     (9 \<le> n \<and> n \<le> 13) \<or> (28 \<le> n \<and> n \<le> 32) \<or> n = 133 \<or> n = 160)"

definition lower_char :: "char \<Rightarrow> char" where
  "lower_char c = (let n = (of_char c :: nat) in
     if (65 \<le> n \<and> n \<le> 90) \<or> (192 \<le> n \<and> n \<le> 222 \<and> n \<noteq> 215)
     then char_of (n + 32) else c)"

definition strip :: "string \<Rightarrow> string" where
  "strip s = rev (dropWhile isspace (rev (dropWhile isspace s)))"

definition lower :: "string \<Rightarrow> string" where
  "lower s = map lower_char s"

definition digit :: "char \<Rightarrow> bool" where
  "digit c = (CHR ''0'' \<le> c \<and> c \<le> CHR ''9'')"

definition digit_val :: "char \<Rightarrow> int" where
  "digit_val c = int (of_char c) - 48"


section \<open>Bucket classifier\<close>

text \<open>
  \<^verbatim>\<open>
  def clasificar_bucket(categoria):
      if categoria.strip().lower() == "deseos":
          return "Deseos"
      elif categoria.strip().lower() == "ahorro":
          return "Ahorro"
      else:
          return "Necesidades"
  \<close>
\<close>

definition clasificar_bucket :: "string \<Rightarrow> string" where
  "clasificar_bucket categoria =
     (if lower (strip categoria) = ''deseos'' then ''Deseos''
      else if lower (strip categoria) = ''ahorro'' then ''Ahorro''
      else ''Necesidades'')"


section \<open>Dates: \<open>datetime.strptime(fecha, "%Y-%m-%d")\<close>\<close>

text \<open>
  The format compiles to the regular expression
  \<open>(\d\d\d\d)-(1[0-2]|0[1-9]|[1-9])-(3[0-1]|[1-2]\d|0[1-9]|[1-9]| [1-9])\<close>, matched at the
  start of the text; text left over after the match, a year below 1 and a day beyond the
  end of the month raise \<open>ValueError\<close> (the result \<open>None\<close> here). Each group below takes
  the first alternative that matches, as the regular expression does; a later alternative
  tried after a failure further right can never succeed, since it would leave a digit
  where the hyphen or the end of the text has to be.
\<close>

definition re_m :: "string \<Rightarrow> (int \<times> string) option" where
  "re_m s = (case s of
       [] \<Rightarrow> None
     | a # r \<Rightarrow>
        (case r of
           [] \<Rightarrow> if a \<in> set ''123456789'' then Some (digit_val a, r) else None
         | b # r' \<Rightarrow>
            if a = CHR ''1'' \<and> b \<in> set ''012'' then Some (10 + digit_val b, r')
            else if a = CHR ''0'' \<and> b \<in> set ''123456789'' then Some (digit_val b, r')
            else if a \<in> set ''123456789'' then Some (digit_val a, r)
            else None))"

definition re_d :: "string \<Rightarrow> (int \<times> string) option" where
  "re_d s = (case s of
       [] \<Rightarrow> None
     | a # r \<Rightarrow>
        (case r of
           [] \<Rightarrow> if a \<in> set ''123456789'' then Some (digit_val a, r) else None
         | b # r' \<Rightarrow>
            if a = CHR ''3'' \<and> b \<in> set ''01'' then Some (30 + digit_val b, r')
            else if a \<in> set ''12'' \<and> digit b then Some (10 * digit_val a + digit_val b, r')
            else if a = CHR ''0'' \<and> b \<in> set ''123456789'' then Some (digit_val b, r')
            else if a \<in> set ''123456789'' then Some (digit_val a, r)
            else if a = CHR '' '' \<and> b \<in> set ''123456789'' then Some (digit_val b, r')
            else None))"

definition is_leap :: "int \<Rightarrow> bool" where
  "is_leap y = (y mod 4 = 0 \<and> (y mod 100 \<noteq> 0 \<or> y mod 400 = 0))"

definition days_in_month :: "int \<Rightarrow> int \<Rightarrow> int" where
  "days_in_month y m =
     (if m = 2 then (if is_leap y then 29 else 28)
      else if m \<in> {4, 6, 9, 11} then 30 else 31)"

definition strptime :: "string \<Rightarrow> (int \<times> int \<times> int) option" where
  "strptime fecha =
     (if length fecha < 5 \<or> \<not> list_all digit (take 4 fecha) \<or> fecha ! 4 \<noteq> CHR ''-'' then None
      else
        (let y = 1000 * digit_val (fecha ! 0) + 100 * digit_val (fecha ! 1)
                 + 10 * digit_val (fecha ! 2) + digit_val (fecha ! 3)
         in case re_m (drop 5 fecha) of
              None \<Rightarrow> None
            | Some (m, r) \<Rightarrow>
               (if r = [] \<or> hd r \<noteq> CHR ''-'' then None
                else case re_d (tl r) of
                       None \<Rightarrow> None
                     | Some (d, r') \<Rightarrow>
                        if r' \<noteq> [] \<or> y < 1 \<or> days_in_month y m < d then None
                        else Some (y, m, d))))"

text \<open>
  The pages pass dates as \<open>strftime("%Y-%m-%d")\<close> writes them: four digits, a hyphen, two
  digits, a hyphen, two digits. \<open>num\<close> is the number that a run of digits stands for.
\<close>

definition fecha_iso :: "string \<Rightarrow> bool" where
  "fecha_iso s = (length s = 10 \<and> list_all digit (take 4 s) \<and> s ! 4 = CHR ''-''
     \<and> list_all digit (take 2 (drop 5 s)) \<and> s ! 7 = CHR ''-'' \<and> list_all digit (drop 8 s))"

definition num :: "string \<Rightarrow> int" where
  "num s = foldl (\<lambda>n c. 10 * n + digit_val c) 0 s"


section \<open>Record store\<close>

text \<open>
  The two tables of \<open>inicializar_base_datos\<close>. The columns \<open>fecha\<close>, \<open>anio\<close>, \<open>mes\<close> and
  \<open>concepto\<close> exist in both tables; the fields carry the suffix \<open>_i\<close> or \<open>_g\<close> to keep them
  apart. \<open>REAL\<close> columns hold exact rationals here. Where the code multiplies, divides and
  adds doubles, the definitions below compute the exact result: the rounding of binary
  floating point, and with it any bound on the error of the derived amounts or of their sum,
  is outside this model.
\<close>

record ingreso =
  id_ingreso :: int
  fecha_i :: string
  anio_i :: int
  mes_i :: int
  concepto_i :: string
  valor_total :: rat
  porc_necesidades :: rat
  porc_deseos :: rat
  porc_ahorro :: rat
  monto_necesidades :: rat
  monto_deseos :: rat
  monto_ahorro :: rat

record gasto =
  id_gasto :: int
  fecha_g :: string
  anio_g :: int
  mes_g :: int
  categoria :: string
  concepto_g :: string
  valor :: rat

text \<open>
  The store: the rows of each table in the order a table scan yields them, and for each
  table the largest key ever handed out (\<open>AUTOINCREMENT\<close> keeps it in \<open>sqlite_sequence\<close>).
\<close>

record db =
  ingresos :: "ingreso list"
  gastos :: "gasto list"
  seq_ingresos :: int
  seq_gastos :: int

datatype error = ValueError | OperationalError | OverflowError

text \<open>
  \<open>INTEGER PRIMARY KEY AUTOINCREMENT\<close>: the new key is one more than the largest key that
  the table holds or ever held; when that is the largest 64-bit integer the insert fails.
\<close>

definition nuevo_rowid :: "int \<Rightarrow> int list \<Rightarrow> int option" where
  "nuevo_rowid seq ids =
     (let m = fold max ids seq in
      if m \<ge> 9223372036854775807 then None else Some (m + 1))"

definition insertar_ingreso ::
  "string \<Rightarrow> string \<Rightarrow> rat \<Rightarrow> rat \<Rightarrow> rat \<Rightarrow> rat \<Rightarrow> db \<Rightarrow> error + db" where
  "insertar_ingreso fecha concepto valor_tot porc_nec porc_des porc_aho d =
     (case strptime fecha of
        None \<Rightarrow> Inl ValueError
      | Some (anio, mes, dia) \<Rightarrow>
         (let monto_nec = valor_tot * (porc_nec / 100);
              monto_des = valor_tot * (porc_des / 100);
              monto_aho = valor_tot * (porc_aho / 100)
          in case nuevo_rowid (seq_ingresos d) (map id_ingreso (ingresos d)) of
               None \<Rightarrow> Inl OperationalError
             | Some i \<Rightarrow>
                Inr (d\<lparr>ingresos := ingresos d @
                         [\<lparr>id_ingreso = i, fecha_i = fecha, anio_i = anio, mes_i = mes,
                           concepto_i = concepto, valor_total = valor_tot,
                           porc_necesidades = porc_nec, porc_deseos = porc_des,
                           porc_ahorro = porc_aho, monto_necesidades = monto_nec,
                           monto_deseos = monto_des, monto_ahorro = monto_aho\<rparr>],
                       seq_ingresos := i\<rparr>)))"

definition insertar_gasto :: "string \<Rightarrow> string \<Rightarrow> string \<Rightarrow> rat \<Rightarrow> db \<Rightarrow> error + db" where
  "insertar_gasto fecha cat concepto v d =
     (case strptime fecha of
        None \<Rightarrow> Inl ValueError
      | Some (anio, mes, dia) \<Rightarrow>
         (case nuevo_rowid (seq_gastos d) (map id_gasto (gastos d)) of
            None \<Rightarrow> Inl OperationalError
          | Some i \<Rightarrow>
             Inr (d\<lparr>gastos := gastos d @
                      [\<lparr>id_gasto = i, fecha_g = fecha, anio_g = anio, mes_g = mes,
                        categoria = cat, concepto_g = concepto, valor = v\<rparr>],
                    seq_gastos := i\<rparr>)))"

text \<open>
  \<open>ORDER BY fecha DESC\<close> compares the stored text of the date, character by character.
  Rows with the same text stay in the order of the table scan.
\<close>

definition order_by_desc :: "('a \<Rightarrow> string) \<Rightarrow> 'a list \<Rightarrow> 'a list" where
  "order_by_desc k rows = rev (sort_key k (rev rows))"

definition obtener_ingresos :: "db \<Rightarrow> int option \<Rightarrow> int option \<Rightarrow> ingreso list" where
  "obtener_ingresos d anio mes =
     order_by_desc fecha_i
       (if anio \<noteq> None \<and> mes \<noteq> None
        then filter (\<lambda>r. anio_i r = the anio \<and> mes_i r = the mes) (ingresos d)
        else if anio \<noteq> None
        then filter (\<lambda>r. anio_i r = the anio) (ingresos d)
        else ingresos d)"

definition obtener_gastos :: "db \<Rightarrow> int option \<Rightarrow> int option \<Rightarrow> gasto list" where
  "obtener_gastos d anio mes =
     order_by_desc fecha_g
       (if anio \<noteq> None \<and> mes \<noteq> None
        then filter (\<lambda>r. anio_g r = the anio \<and> mes_g r = the mes) (gastos d)
        else if anio \<noteq> None
        then filter (\<lambda>r. anio_g r = the anio) (gastos d)
        else gastos d)"

text \<open>
  \<open>DELETE FROM ingresos WHERE id_ingreso = ?\<close> with the id bound as the parameter. The
  \<open>sqlite3\<close> module binds a Python \<open>int\<close> as a 64-bit \<open>INTEGER\<close> and raises
  \<open>OverflowError\<close>, before the statement runs, when the number does not fit.
\<close>

definition sqlite_integer :: "int \<Rightarrow> bool" where
  "sqlite_integer i = (- 9223372036854775808 \<le> i \<and> i \<le> 9223372036854775807)"

definition eliminar_ingreso :: "int \<Rightarrow> db \<Rightarrow> error + db" where
  "eliminar_ingreso i d =
     (if sqlite_integer i
      then Inr (d\<lparr>ingresos := filter (\<lambda>r. id_ingreso r \<noteq> i) (ingresos d)\<rparr>)
      else Inl OverflowError)"

definition eliminar_gasto :: "int \<Rightarrow> db \<Rightarrow> error + db" where
  "eliminar_gasto i d =
     (if sqlite_integer i
      then Inr (d\<lparr>gastos := filter (\<lambda>r. id_gasto r \<noteq> i) (gastos d)\<rparr>)
      else Inl OverflowError)"

text \<open>
  \<open>SELECT DISTINCT anio FROM ingresos UNION SELECT DISTINCT anio FROM gastos ORDER BY anio
  DESC\<close>, and the year of \<open>datetime.now()\<close>, here the argument \<open>anio_actual\<close>, when no row
  comes back.
\<close>

definition obtener_anios_disponibles :: "db \<Rightarrow> int \<Rightarrow> int list" where
  "obtener_anios_disponibles d anio_actual =
     (let anios = rev (sort (remdups (map anio_i (ingresos d) @ map anio_g (gastos d))))
      in if anios \<noteq> [] then anios else [anio_actual])"


section \<open>Period summarizer\<close>

record buckets =
  Necesidades :: rat
  Deseos :: rat
  Ahorro :: rat

record resumen =
  presupuesto :: buckets
  gastado :: buckets
  disponible :: buckets

definition resumen_buckets :: "db \<Rightarrow> int option \<Rightarrow> int option \<Rightarrow> resumen" where
  "resumen_buckets d anio mes =
     (let ings = obtener_ingresos d anio mes;
          gas = obtener_gastos d anio mes;
          p = \<lparr>Necesidades = (if ings \<noteq> [] then sum_list (map monto_necesidades ings) else 0),
               Deseos = (if ings \<noteq> [] then sum_list (map monto_deseos ings) else 0),
               Ahorro = (if ings \<noteq> [] then sum_list (map monto_ahorro ings) else 0)\<rparr>;
          g0 = \<lparr>Necesidades = 0, Deseos = 0, Ahorro = 0\<rparr>;
          g = (if gas \<noteq> []
               then g0\<lparr>Necesidades := sum_list (map valor
                            (filter (\<lambda>r. clasificar_bucket (categoria r) = ''Necesidades'') gas)),
                        Deseos := sum_list (map valor
                            (filter (\<lambda>r. clasificar_bucket (categoria r) = ''Deseos'') gas)),
                        Ahorro := 0\<rparr>
               else g0);
          a = \<lparr>Necesidades = Necesidades p - Necesidades g,
               Deseos = Deseos p - Deseos g,
               Ahorro = Ahorro p\<rparr>
      in \<lparr>presupuesto = p, gastado = g, disponible = a\<rparr>)"


section \<open>Net balance, as the pages compute it\<close>

text \<open>The analysis page (\<open>saldo_neto\<close>), for the selected year and month.\<close>

definition saldo_neto :: "db \<Rightarrow> int \<Rightarrow> int \<Rightarrow> rat" where
  "saldo_neto d anio mes =
     (let ingresos_periodo = obtener_ingresos d (Some anio) (Some mes);
          gastos_periodo = obtener_gastos d (Some anio) (Some mes);
          total_ingresos = (if ingresos_periodo \<noteq> []
                            then sum_list (map valor_total ingresos_periodo) else 0);
          total_gastos = (if gastos_periodo \<noteq> []
                          then sum_list (map valor gastos_periodo) else 0);
          total_ahorro = (if ingresos_periodo \<noteq> []
                          then sum_list (map monto_ahorro ingresos_periodo) else 0)
      in total_ingresos - total_gastos - total_ahorro)"

text \<open>The expense form, before the expense is saved (\<open>saldo_cuenta\<close>).\<close>

definition saldo_cuenta :: "db \<Rightarrow> int \<Rightarrow> int \<Rightarrow> rat" where
  "saldo_cuenta d anio mes =
     (let total_ingresos = sum_list (map valor_total (obtener_ingresos d (Some anio) (Some mes)));
          total_gastos = sum_list (map valor (obtener_gastos d (Some anio) (Some mes)));
          total_ahorro = sum_list (map monto_ahorro (obtener_ingresos d (Some anio) (Some mes)))
      in total_ingresos - total_gastos - total_ahorro)"

text \<open>The expense form, after the expense is saved (\<open>saldo_cuenta_post\<close>).\<close>

definition saldo_cuenta_post :: "db \<Rightarrow> int \<Rightarrow> int \<Rightarrow> rat" where
  "saldo_cuenta_post d anio mes =
     (let total_ingresos_post =
            sum_list (map valor_total (obtener_ingresos d (Some anio) (Some mes)));
          total_gastos_post = sum_list (map valor (obtener_gastos d (Some anio) (Some mes)))
      in total_ingresos_post - total_gastos_post)"


section \<open>Example stores\<close>

text \<open>The store right after \<open>inicializar_base_datos\<close> has created the two tables.\<close>

definition db_vacia :: db where
  "db_vacia = \<lparr>ingresos = [], gastos = [], seq_ingresos = 0, seq_gastos = 0\<rparr>"

text \<open>
  One income of 1000 split 80/10/10 on 2024-03-01 and one expense of 150 in the category
  Mercado on 2024-03-05; then the same with a second expense of 50 in the category Ahorro.
\<close>

definition db_ejemplo :: db where
  "db_ejemplo =
     \<lparr>ingresos = [\<lparr>id_ingreso = 1, fecha_i = ''2024-03-01'', anio_i = 2024, mes_i = 3,
                   concepto_i = ''Salary'', valor_total = 1000, porc_necesidades = 80,
                   porc_deseos = 10, porc_ahorro = 10, monto_necesidades = 800,
                   monto_deseos = 100, monto_ahorro = 100\<rparr>],
      gastos = [\<lparr>id_gasto = 1, fecha_g = ''2024-03-05'', anio_g = 2024, mes_g = 3,
                 categoria = ''Mercado'', concepto_g = ''Compra'', valor = 150\<rparr>],
      seq_ingresos = 1, seq_gastos = 1\<rparr>"

definition db_ejemplo_ahorro :: db where
  "db_ejemplo_ahorro =
     db_ejemplo\<lparr>gastos := gastos db_ejemplo @
        [\<lparr>id_gasto = 2, fecha_g = ''2024-03-10'', anio_g = 2024, mes_g = 3,
          categoria = ''Ahorro'', concepto_g = ''Fondo'', valor = 50\<rparr>],
        seq_gastos := 2\<rparr>"

text \<open>The example store after its income is deleted.\<close>

definition db_sin_ingresos :: db where
  "db_sin_ingresos = db_ejemplo\<lparr>ingresos := []\<rparr>"

text \<open>
  An income saved with the date 2024-03-10, and then a second one saved with the date
  written 2024-3-5, without the leading zeros.
\<close>

definition db_diez_marzo :: db where
  "db_diez_marzo =
     \<lparr>ingresos = [\<lparr>id_ingreso = 1, fecha_i = ''2024-03-10'', anio_i = 2024, mes_i = 3,
                   concepto_i = ''Salary'', valor_total = 1000, porc_necesidades = 80,
                   porc_deseos = 10, porc_ahorro = 10, monto_necesidades = 800,
                   monto_deseos = 100, monto_ahorro = 100\<rparr>],
      gastos = [], seq_ingresos = 1, seq_gastos = 0\<rparr>"

definition db_sin_ceros :: db where
  "db_sin_ceros =
     db_diez_marzo\<lparr>ingresos := ingresos db_diez_marzo @
        [\<lparr>id_ingreso = 2, fecha_i = ''2024-3-5'', anio_i = 2024, mes_i = 3,
          concepto_i = ''Bono'', valor_total = 200, porc_necesidades = 80,
          porc_deseos = 10, porc_ahorro = 10, monto_necesidades = 160,
          monto_deseos = 20, monto_ahorro = 20\<rparr>],
        seq_ingresos := 2\<rparr>"

text \<open>Three incomes and two expenses, saved in an order that is not the order of their dates.\<close>

definition db_tres_fechas :: db where
  "db_tres_fechas =
     \<lparr>ingresos =
        [\<lparr>id_ingreso = 1, fecha_i = ''2024-03-05'', anio_i = 2024, mes_i = 3,
          concepto_i = ''Bono'', valor_total = 200, porc_necesidades = 80,
          porc_deseos = 10, porc_ahorro = 10, monto_necesidades = 160,
          monto_deseos = 20, monto_ahorro = 20\<rparr>,
         \<lparr>id_ingreso = 2, fecha_i = ''2023-12-31'', anio_i = 2023, mes_i = 12,
          concepto_i = ''Aguinaldo'', valor_total = 500, porc_necesidades = 50,
          porc_deseos = 30, porc_ahorro = 20, monto_necesidades = 250,
          monto_deseos = 150, monto_ahorro = 100\<rparr>,
         \<lparr>id_ingreso = 3, fecha_i = ''2024-03-10'', anio_i = 2024, mes_i = 3,
          concepto_i = ''Salary'', valor_total = 1000, porc_necesidades = 80,
          porc_deseos = 10, porc_ahorro = 10, monto_necesidades = 800,
          monto_deseos = 100, monto_ahorro = 100\<rparr>],
      gastos =
        [\<lparr>id_gasto = 1, fecha_g = ''2024-01-15'', anio_g = 2024, mes_g = 1,
          categoria = ''Deseos'', concepto_g = ''Cine'', valor = 30\<rparr>,
         \<lparr>id_gasto = 2, fecha_g = ''2024-03-05'', anio_g = 2024, mes_g = 3,
          categoria = ''Mercado'', concepto_g = ''Compra'', valor = 150\<rparr>],
      seq_ingresos = 3, seq_gastos = 2\<rparr>"


section \<open>Properties of the queries\<close>

lemma mset_order_by_desc: "mset (order_by_desc k rows) = mset rows"
  by (simp add: order_by_desc_def)

lemma set_order_by_desc: "set (order_by_desc k rows) = set rows"
  by (simp add: order_by_desc_def)

lemma order_by_desc_Nil: "order_by_desc k rows = [] \<longleftrightarrow> rows = []"
  using mset_order_by_desc [of k rows] by (metis mset_zero_iff)

lemma desc_order_by_desc: "sorted_wrt (\<lambda>a b. b \<le> a) (map k (order_by_desc k rows))"
proof -
  have "sorted (rev (map k (order_by_desc k rows)))"
    by (simp add: order_by_desc_def rev_map)
  then show ?thesis by (simp add: sorted_wrt_rev)
qed

lemma sum_order_by_desc:
  fixes f :: "'a \<Rightarrow> rat"
  shows "sum_list (map f (order_by_desc k rows)) = sum_list (map f rows)"
proof -
  have "mset (map f (order_by_desc k rows)) = mset (map f rows)"
    by (simp add: mset_order_by_desc)
  then show ?thesis by (metis sum_mset_sum_list)
qed

lemma obtener_ingresos_periodo:
  "obtener_ingresos d (Some y) (Some m) =
     order_by_desc fecha_i (filter (\<lambda>r. anio_i r = y \<and> mes_i r = m) (ingresos d))"
  by (simp add: obtener_ingresos_def)

lemma obtener_gastos_periodo:
  "obtener_gastos d (Some y) (Some m) =
     order_by_desc fecha_g (filter (\<lambda>r. anio_g r = y \<and> mes_g r = m) (gastos d))"
  by (simp add: obtener_gastos_def)

lemma sum_filter_order_by_desc:
  fixes f :: "'a \<Rightarrow> rat"
  shows "sum_list (map f (filter P (order_by_desc k rows))) = sum_list (map f (filter P rows))"
proof -
  have "mset (filter P (order_by_desc k rows)) = mset (filter P rows)"
    by (simp only: mset_filter mset_order_by_desc)
  then have "mset (map f (filter P (order_by_desc k rows))) = mset (map f (filter P rows))"
    by (simp only: mset_map)
  then show ?thesis by (metis sum_mset_sum_list)
qed

text \<open>The example store is what the two inserts of the scenario produce from the empty store.\<close>

lemma db_ejemplo_alcanzable:
  "(case insertar_ingreso ''2024-03-01'' ''Salary'' 1000 80 10 10 db_vacia of
      Inl e \<Rightarrow> Inl e
    | Inr d \<Rightarrow> insertar_gasto ''2024-03-05'' ''Mercado'' ''Compra'' 150 d) = Inr db_ejemplo"
  by code_simp

lemma resumen_buckets_escenario:
  "resumen_buckets db_ejemplo (Some 2024) (Some 3) =
     \<lparr>presupuesto = \<lparr>Necesidades = 800, Deseos = 100, Ahorro = 100\<rparr>,
      gastado = \<lparr>Necesidades = 150, Deseos = 0, Ahorro = 0\<rparr>,
      disponible = \<lparr>Necesidades = 650, Deseos = 100, Ahorro = 100\<rparr>\<rparr>"
  by code_simp


section \<open>Net balance\<close>

text \<open>
  On the analysis page and on the expense form before saving, the balance is the income of
  the period minus its expenses minus its savings.
\<close>

lemma saldo_neto_eq:
  "saldo_neto d y m =
     sum_list (map valor_total (filter (\<lambda>r. anio_i r = y \<and> mes_i r = m) (ingresos d)))
     - sum_list (map valor (filter (\<lambda>r. anio_g r = y \<and> mes_g r = m) (gastos d)))
     - sum_list (map monto_ahorro (filter (\<lambda>r. anio_i r = y \<and> mes_i r = m) (ingresos d)))"
  by (simp add: saldo_neto_def Let_def obtener_ingresos_periodo obtener_gastos_periodo
      sum_order_by_desc order_by_desc_Nil)

lemma saldo_cuenta_eq:
  "saldo_cuenta d y m =
     sum_list (map valor_total (filter (\<lambda>r. anio_i r = y \<and> mes_i r = m) (ingresos d)))
     - sum_list (map valor (filter (\<lambda>r. anio_g r = y \<and> mes_g r = m) (gastos d)))
     - sum_list (map monto_ahorro (filter (\<lambda>r. anio_i r = y \<and> mes_i r = m) (ingresos d)))"
  by (simp add: saldo_cuenta_def Let_def obtener_ingresos_periodo obtener_gastos_periodo
      sum_order_by_desc)

lemma saldo_cuenta_post_eq:
  "saldo_cuenta_post d y m =
     sum_list (map valor_total (filter (\<lambda>r. anio_i r = y \<and> mes_i r = m) (ingresos d)))
     - sum_list (map valor (filter (\<lambda>r. anio_g r = y \<and> mes_g r = m) (gastos d)))"
  by (simp add: saldo_cuenta_post_def Let_def obtener_ingresos_periodo obtener_gastos_periodo
      sum_order_by_desc)

text \<open>
  C1. The net balance of a period is income minus expenses minus savings at every place
  that computes it. The balance shown after an expense is saved leaves the savings out: in
  the example store it is 850, while the analysis page and the form before saving show 750,
  which is income minus expenses minus savings.
\<close>

theorem saldo_cuenta_post_sin_ahorro:
  "saldo_cuenta_post db_ejemplo 2024 3 = 850
   \<and> saldo_cuenta db_ejemplo 2024 3 = 750
   \<and> saldo_neto db_ejemplo 2024 3 = 750
   \<and> sum_list (map valor_total (filter (\<lambda>r. anio_i r = 2024 \<and> mes_i r = 3) (ingresos db_ejemplo)))
     - sum_list (map valor (filter (\<lambda>r. anio_g r = 2024 \<and> mes_g r = 3) (gastos db_ejemplo)))
     - sum_list (map monto_ahorro (filter (\<lambda>r. anio_i r = 2024 \<and> mes_i r = 3) (ingresos db_ejemplo)))
     = 750"
  by (simp add: saldo_cuenta_post_eq saldo_cuenta_eq saldo_neto_eq db_ejemplo_def)


section \<open>Period summary\<close>

text \<open>
  C2. In every store and for every period the summary has nothing spent from Ahorro and
  all of the Ahorro budget available; saving an expense whose category is classified as
  Ahorro leaves both figures as they were.
\<close>

theorem resumen_ahorro_nunca_gastado:
  "Ahorro (gastado (resumen_buckets d anio mes)) = 0
   \<and> Ahorro (disponible (resumen_buckets d anio mes)) = Ahorro (presupuesto (resumen_buckets d anio mes))
   \<and> (clasificar_bucket cat = ''Ahorro'' \<longrightarrow> insertar_gasto fecha cat concepto v d = Inr d' \<longrightarrow>
        Ahorro (gastado (resumen_buckets d' anio mes)) = Ahorro (gastado (resumen_buckets d anio mes))
        \<and> Ahorro (disponible (resumen_buckets d' anio mes)) = Ahorro (disponible (resumen_buckets d anio mes)))"
proof -
  have a: "\<And>e. Ahorro (gastado (resumen_buckets e anio mes)) = 0"
    by (simp add: resumen_buckets_def Let_def)
  have b: "\<And>e. Ahorro (disponible (resumen_buckets e anio mes)) = Ahorro (presupuesto (resumen_buckets e anio mes))"
    by (simp add: resumen_buckets_def Let_def)
  have c: "Ahorro (presupuesto (resumen_buckets d' anio mes)) = Ahorro (presupuesto (resumen_buckets d anio mes))"
    if "insertar_gasto fecha cat concepto v d = Inr d'"
  proof -
    from that have "ingresos d' = ingresos d"
      by (auto simp: insertar_gasto_def split: option.splits)
    then have "obtener_ingresos d' anio mes = obtener_ingresos d anio mes"
      by (simp add: obtener_ingresos_def)
    then show ?thesis by (simp add: resumen_buckets_def Let_def)
  qed
  show ?thesis using a b c by simp
qed

theorem resumen_ahorro_nunca_gastado_witness:
  "clasificar_bucket ''Ahorro'' = ''Ahorro''
   \<and> insertar_gasto ''2024-03-10'' ''Ahorro'' ''Fondo'' 50 db_ejemplo = Inr db_ejemplo_ahorro
   \<and> Ahorro (gastado (resumen_buckets db_ejemplo_ahorro (Some 2024) (Some 3))) = 0
   \<and> Ahorro (disponible (resumen_buckets db_ejemplo_ahorro (Some 2024) (Some 3))) = 100"
proof -
  have h1: "clasificar_bucket ''Ahorro'' = ''Ahorro''" by code_simp
  have h2: "insertar_gasto ''2024-03-10'' ''Ahorro'' ''Fondo'' 50 db_ejemplo = Inr db_ejemplo_ahorro"
    by code_simp
  have h3: "Ahorro (disponible (resumen_buckets db_ejemplo (Some 2024) (Some 3))) = 100"
    by (simp add: resumen_buckets_escenario)
  show ?thesis
    using h1 h2 h3
      resumen_ahorro_nunca_gastado [of db_ejemplo "Some 2024" "Some 3" "''Ahorro''"
        "''2024-03-10''" "''Fondo''" 50 db_ejemplo_ahorro]
    by simp
qed

text \<open>
  C3. For a year and a month, the three budgets are the sums of \<open>monto_necesidades\<close>,
  \<open>monto_deseos\<close> and \<open>monto_ahorro\<close> over the incomes of the period, what is spent from
  Necesidades and Deseos is the sum of the expenses of the period classified there, what is
  available is budget minus spent, and a period with no income and no expense has every
  figure 0.
\<close>

theorem resumen_buckets_sumas:
  "Necesidades (presupuesto (resumen_buckets d (Some y) (Some m))) =
     sum_list (map monto_necesidades (filter (\<lambda>r. anio_i r = y \<and> mes_i r = m) (ingresos d)))
   \<and> Deseos (presupuesto (resumen_buckets d (Some y) (Some m))) =
     sum_list (map monto_deseos (filter (\<lambda>r. anio_i r = y \<and> mes_i r = m) (ingresos d)))
   \<and> Ahorro (presupuesto (resumen_buckets d (Some y) (Some m))) =
     sum_list (map monto_ahorro (filter (\<lambda>r. anio_i r = y \<and> mes_i r = m) (ingresos d)))
   \<and> Necesidades (gastado (resumen_buckets d (Some y) (Some m))) =
     sum_list (map valor (filter (\<lambda>r. clasificar_bucket (categoria r) = ''Necesidades'')
        (filter (\<lambda>r. anio_g r = y \<and> mes_g r = m) (gastos d))))
   \<and> Deseos (gastado (resumen_buckets d (Some y) (Some m))) =
     sum_list (map valor (filter (\<lambda>r. clasificar_bucket (categoria r) = ''Deseos'')
        (filter (\<lambda>r. anio_g r = y \<and> mes_g r = m) (gastos d))))
   \<and> Necesidades (disponible (resumen_buckets d (Some y) (Some m))) =
     Necesidades (presupuesto (resumen_buckets d (Some y) (Some m)))
     - Necesidades (gastado (resumen_buckets d (Some y) (Some m)))
   \<and> Deseos (disponible (resumen_buckets d (Some y) (Some m))) =
     Deseos (presupuesto (resumen_buckets d (Some y) (Some m)))
     - Deseos (gastado (resumen_buckets d (Some y) (Some m)))
   \<and> (filter (\<lambda>r. anio_i r = y \<and> mes_i r = m) (ingresos d) = []
      \<and> filter (\<lambda>r. anio_g r = y \<and> mes_g r = m) (gastos d) = [] \<longrightarrow>
      resumen_buckets d (Some y) (Some m) =
        \<lparr>presupuesto = \<lparr>Necesidades = 0, Deseos = 0, Ahorro = 0\<rparr>,
         gastado = \<lparr>Necesidades = 0, Deseos = 0, Ahorro = 0\<rparr>,
         disponible = \<lparr>Necesidades = 0, Deseos = 0, Ahorro = 0\<rparr>\<rparr>)"
  (is "?P1 \<and> ?P2 \<and> ?P3 \<and> ?G1 \<and> ?G2 \<and> ?D1 \<and> ?D2 \<and> ?Z")
proof -
  let ?is = "filter (\<lambda>r. anio_i r = y \<and> mes_i r = m) (ingresos d)"
  let ?gs = "filter (\<lambda>r. anio_g r = y \<and> mes_g r = m) (gastos d)"
  have sumf: "\<And>P. sum_list (map valor (filter P (order_by_desc fecha_g ?gs)))
                 = sum_list (map valor (filter P ?gs))"
    by (rule sum_filter_order_by_desc)
  have p1: ?P1 and p2: ?P2 and p3: ?P3
    by (simp_all add: resumen_buckets_def Let_def obtener_ingresos_periodo
        sum_order_by_desc order_by_desc_Nil)
  have g1: ?G1 and g2: ?G2
    by (cases "?gs = []";
        simp add: resumen_buckets_def Let_def obtener_gastos_periodo sumf order_by_desc_Nil
          del: filter_filter)+
  have d1: ?D1 and d2: ?D2
    by (simp_all add: resumen_buckets_def Let_def)
  have z: ?Z
    by (simp add: resumen_buckets_def Let_def obtener_ingresos_periodo obtener_gastos_periodo
        order_by_desc_Nil)
  show ?thesis using p1 p2 p3 g1 g2 d1 d2 z by blast
qed

theorem resumen_buckets_sumas_witness:
  "filter (\<lambda>r. anio_i r = 2024 \<and> mes_i r = 3) (ingresos db_vacia) = []
   \<and> filter (\<lambda>r. anio_g r = 2024 \<and> mes_g r = 3) (gastos db_vacia) = []
   \<and> resumen_buckets db_vacia (Some 2024) (Some 3) =
        \<lparr>presupuesto = \<lparr>Necesidades = 0, Deseos = 0, Ahorro = 0\<rparr>,
         gastado = \<lparr>Necesidades = 0, Deseos = 0, Ahorro = 0\<rparr>,
         disponible = \<lparr>Necesidades = 0, Deseos = 0, Ahorro = 0\<rparr>\<rparr>"
proof -
  have h: "filter (\<lambda>r. anio_i r = 2024 \<and> mes_i r = 3) (ingresos db_vacia) = []
     \<and> filter (\<lambda>r. anio_g r = 2024 \<and> mes_g r = 3) (gastos db_vacia) = []"
    by (simp add: db_vacia_def)
  show ?thesis using h resumen_buckets_sumas [of db_vacia 2024 3] by blast
qed


section \<open>Data access\<close>

text \<open>
  C8. The available years are the years of the rows of either table, each once, in
  descending order; with both tables empty the answer is the current year alone.
\<close>

theorem obtener_anios_disponibles_ok:
  "distinct (obtener_anios_disponibles d a)
   \<and> sorted_wrt (\<lambda>x y. y < x) (obtener_anios_disponibles d a)
   \<and> (ingresos d \<noteq> [] \<or> gastos d \<noteq> [] \<longrightarrow>
        set (obtener_anios_disponibles d a) = anio_i ` set (ingresos d) \<union> anio_g ` set (gastos d))
   \<and> (ingresos d = [] \<and> gastos d = [] \<longrightarrow> obtener_anios_disponibles d a = [a])"
proof -
  let ?ys = "map anio_i (ingresos d) @ map anio_g (gastos d)"
  let ?s = "rev (sort (remdups ?ys))"
  have 1: "distinct ?s" by simp
  have "sorted (sort (remdups ?ys))" by simp
  then have "sorted_wrt (<) (sort (remdups ?ys))"
    using strict_sorted_iff [of "sort (remdups ?ys)"] by simp
  then have 2: "sorted_wrt (\<lambda>x y. y < x) ?s"
    by (simp add: sorted_wrt_rev)
  have 3: "set ?s = anio_i ` set (ingresos d) \<union> anio_g ` set (gastos d)" by simp
  have 4: "?s = [] \<longleftrightarrow> ingresos d = [] \<and> gastos d = []"
  proof -
    have "?s = [] \<longleftrightarrow> set ?s = {}" by (simp only: set_empty)
    also have "\<dots> \<longleftrightarrow> ingresos d = [] \<and> gastos d = []" by (simp only: 3) simp
    finally show ?thesis .
  qed
  show ?thesis
    unfolding obtener_anios_disponibles_def Let_def
    using 1 2 3 4 by auto
qed

theorem obtener_anios_disponibles_ok_witness:
  "ingresos db_vacia = [] \<and> gastos db_vacia = []
   \<and> obtener_anios_disponibles db_vacia 2026 = [2026]
   \<and> ingresos db_ejemplo \<noteq> []
   \<and> set (obtener_anios_disponibles db_ejemplo 2026) = {2024}"
proof -
  have h1: "ingresos db_vacia = [] \<and> gastos db_vacia = []" by (simp add: db_vacia_def)
  have h2: "ingresos db_ejemplo \<noteq> []" by (simp add: db_ejemplo_def)
  have h3: "anio_i ` set (ingresos db_ejemplo) \<union> anio_g ` set (gastos db_ejemplo) = {2024}"
    by (simp add: db_ejemplo_def)
  show ?thesis
    using h1 h2 h3 obtener_anios_disponibles_ok [of db_vacia 2026]
      obtener_anios_disponibles_ok [of db_ejemplo 2026]
    by simp
qed

text \<open>
  An id that does not fit a 64-bit integer is refused, whether a row has it or not.
\<close>

theorem eliminar_inexistente_counterexample:
  "9223372036854775808 \<notin> id_ingreso ` set (ingresos db_ejemplo)
   \<and> eliminar_ingreso 9223372036854775808 db_ejemplo = Inl OverflowError
   \<and> 9223372036854775808 \<notin> id_gasto ` set (gastos db_ejemplo)
   \<and> eliminar_gasto 9223372036854775808 db_ejemplo = Inl OverflowError"
  by (simp add: eliminar_ingreso_def eliminar_gasto_def sqlite_integer_def db_ejemplo_def)

text \<open>
  C9. Deleting an income or an expense by an id that fits a 64-bit integer and that its
  table does not hold completes and leaves the whole store as it was.
\<close>

theorem eliminar_inexistente:
  "(sqlite_integer i \<longrightarrow> i \<notin> id_ingreso ` set (ingresos d) \<longrightarrow> eliminar_ingreso i d = Inr d)
   \<and> (sqlite_integer i \<longrightarrow> i \<notin> id_gasto ` set (gastos d) \<longrightarrow> eliminar_gasto i d = Inr d)"
proof -
  have "filter (\<lambda>r. id_ingreso r \<noteq> i) (ingresos d) = ingresos d"
    if "i \<notin> id_ingreso ` set (ingresos d)"
    using that by (intro filter_True) auto
  moreover have "filter (\<lambda>r. id_gasto r \<noteq> i) (gastos d) = gastos d"
    if "i \<notin> id_gasto ` set (gastos d)"
    using that by (intro filter_True) auto
  ultimately show ?thesis
    by (simp add: eliminar_ingreso_def eliminar_gasto_def)
qed

theorem eliminar_inexistente_witness:
  "sqlite_integer 7
   \<and> 7 \<notin> id_ingreso ` set (ingresos db_ejemplo) \<and> eliminar_ingreso 7 db_ejemplo = Inr db_ejemplo
   \<and> 7 \<notin> id_gasto ` set (gastos db_ejemplo) \<and> eliminar_gasto 7 db_ejemplo = Inr db_ejemplo"
proof -
  have h: "sqlite_integer 7 \<and> 7 \<notin> id_ingreso ` set (ingresos db_ejemplo)
     \<and> 7 \<notin> id_gasto ` set (gastos db_ejemplo)"
    by (simp add: db_ejemplo_def sqlite_integer_def)
  show ?thesis using h eliminar_inexistente [of 7 db_ejemplo] by blast
qed

text \<open>
  C10. A query with a month but no year returns what the query with no filter returns.
\<close>

theorem obtener_mes_sin_anio:
  "obtener_ingresos d None (Some m) = obtener_ingresos d None None
   \<and> obtener_gastos d None (Some m) = obtener_gastos d None None"
  by (simp add: obtener_ingresos_def obtener_gastos_def)


section \<open>Classifier\<close>

lemma isspace_lower_char: "isspace x \<Longrightarrow> lower_char x = x"
  by (auto simp: isspace_def lower_char_def Let_def)

lemma lower_char_letter_not_space:
  assumes "lower_char x = y" "\<not> isspace y"
  shows "\<not> isspace x"
  using assms isspace_lower_char by auto

lemma strip_append:
  assumes l: "list_all isspace l" and r: "list_all isspace r"
    and w: "w \<noteq> []" "\<not> isspace (hd w)" "\<not> isspace (last w)"
  shows "strip (l @ w @ r) = w"
proof -
  from w obtain a v where wv: "w = a # v" by (cases w) auto
  with w have a: "\<not> isspace a" by simp
  have "dropWhile isspace (l @ w @ r) = w @ r"
    using l a wv by (induction l) auto
  moreover have "dropWhile isspace (rev (w @ r)) = rev w"
  proof -
    from w obtain u b where wu: "w = u @ [b]" by (cases w rule: rev_cases) auto
    with w have b: "\<not> isspace b" by simp
    have "dropWhile isspace (rev r @ rev w) = rev w"
      using r b wu by (induction r rule: rev_induct) auto
    then show ?thesis by simp
  qed
  ultimately show ?thesis by (simp add: strip_def)
qed

lemma strip_decompose:
  "\<exists>l r. c = l @ strip c @ r \<and> list_all isspace l \<and> list_all isspace r"
proof -
  let ?l = "takeWhile isspace c"
  let ?m = "dropWhile isspace c"
  let ?r = "rev (takeWhile isspace (rev ?m))"
  have "?m = strip c @ ?r"
  proof -
    have "rev (takeWhile isspace (rev ?m) @ dropWhile isspace (rev ?m)) = rev (rev ?m)"
      by (simp only: takeWhile_dropWhile_id)
    then have "rev (dropWhile isspace (rev ?m)) @ rev (takeWhile isspace (rev ?m)) = ?m"
      by (simp only: rev_append rev_rev_ident)
    then show ?thesis by (simp add: strip_def)
  qed
  then have "c = ?l @ strip c @ ?r"
    by (metis takeWhile_dropWhile_id)
  moreover have "list_all isspace ?l"
    by (simp add: list_all_iff) (meson set_takeWhileD)
  moreover have "list_all isspace ?r"
    by (simp add: list_all_iff) (meson set_takeWhileD)
  ultimately show ?thesis by blast
qed

lemma lower_ends:
  assumes "lower w = k" "k \<noteq> []" "\<not> isspace (hd k)" "\<not> isspace (last k)"
  shows "w \<noteq> [] \<and> \<not> isspace (hd w) \<and> \<not> isspace (last w)"
proof -
  from assms have ne: "w \<noteq> []" by (auto simp: lower_def)
  have "lower_char (hd w) = hd k" using assms ne by (auto simp: lower_def hd_map)
  moreover have "lower_char (last w) = last k" using assms ne by (auto simp: lower_def last_map)
  ultimately show ?thesis using ne assms lower_char_letter_not_space by blast
qed

lemma strip_lower_iff:
  assumes k: "k \<noteq> []" "\<not> isspace (hd k)" "\<not> isspace (last k)"
  shows "lower (strip c) = k \<longleftrightarrow>
         (\<exists>l w r. c = l @ w @ r \<and> list_all isspace l \<and> list_all isspace r \<and> lower w = k)"
proof
  assume "lower (strip c) = k"
  with strip_decompose [of c] show "\<exists>l w r. c = l @ w @ r \<and> list_all isspace l \<and> list_all isspace r \<and> lower w = k"
    by blast
next
  assume "\<exists>l w r. c = l @ w @ r \<and> list_all isspace l \<and> list_all isspace r \<and> lower w = k"
  then obtain l w r where d: "c = l @ w @ r" "list_all isspace l" "list_all isspace r" "lower w = k"
    by blast
  from lower_ends [OF d(4) k] have "w \<noteq> [] \<and> \<not> isspace (hd w) \<and> \<not> isspace (last w)" .
  with d have "strip c = w" by (simp add: strip_append)
  with d show "lower (strip c) = k" by simp
qed

lemma deseos_ends: "''deseos'' \<noteq> [] \<and> \<not> isspace (hd ''deseos'') \<and> \<not> isspace (last ''deseos'')"
  by code_simp

lemma ahorro_ends: "''ahorro'' \<noteq> [] \<and> \<not> isspace (hd ''ahorro'') \<and> \<not> isspace (last ''ahorro'')"
  by code_simp

lemma lower_labels: "lower ''Deseos'' = ''deseos'' \<and> lower ''Ahorro'' = ''ahorro''"
  by code_simp

text \<open>
  C4. \<open>clasificar_bucket\<close> returns one of the three bucket names for every text: Deseos
  exactly when the text is, between leading and trailing whitespace, the word Deseos in any
  mix of upper and lower case, Ahorro exactly when it is the word Ahorro in that sense, and
  Necesidades in every other case; so it does on the four texts of the specification.
\<close>

theorem clasificar_bucket_total:
  "clasificar_bucket c \<in> {''Necesidades'', ''Deseos'', ''Ahorro''}
   \<and> (clasificar_bucket c = ''Deseos'' \<longleftrightarrow>
        (\<exists>l w r. c = l @ w @ r \<and> list_all isspace l \<and> list_all isspace r
           \<and> lower w = lower ''Deseos''))
   \<and> (clasificar_bucket c = ''Ahorro'' \<longleftrightarrow>
        (\<exists>l w r. c = l @ w @ r \<and> list_all isspace l \<and> list_all isspace r
           \<and> lower w = lower ''Ahorro''))
   \<and> (clasificar_bucket c = ''Necesidades'' \<longleftrightarrow>
        clasificar_bucket c \<noteq> ''Deseos'' \<and> clasificar_bucket c \<noteq> ''Ahorro'')
   \<and> clasificar_bucket ''Deseos'' = ''Deseos''
   \<and> clasificar_bucket ''  AHORRO '' = ''Ahorro''
   \<and> clasificar_bucket ''Mercado'' = ''Necesidades''
   \<and> clasificar_bucket ''anything-else'' = ''Necesidades''"
proof -
  have d: "lower (strip c) = ''deseos'' \<longleftrightarrow>
        (\<exists>l w r. c = l @ w @ r \<and> list_all isspace l \<and> list_all isspace r
           \<and> lower w = lower ''Deseos'')"
    using strip_lower_iff [of "''deseos''" c] deseos_ends lower_labels by simp
  have a: "lower (strip c) = ''ahorro'' \<longleftrightarrow>
        (\<exists>l w r. c = l @ w @ r \<and> list_all isspace l \<and> list_all isspace r
           \<and> lower w = lower ''Ahorro'')"
    using strip_lower_iff [of "''ahorro''" c] ahorro_ends lower_labels by simp
  have 1: "clasificar_bucket c \<in> {''Necesidades'', ''Deseos'', ''Ahorro''}"
    by (simp add: clasificar_bucket_def)
  have 2: "clasificar_bucket c = ''Deseos'' \<longleftrightarrow> lower (strip c) = ''deseos''"
    by (simp add: clasificar_bucket_def)
  have 3: "clasificar_bucket c = ''Ahorro'' \<longleftrightarrow> lower (strip c) = ''ahorro''"
    by (auto simp: clasificar_bucket_def)
  have 4: "clasificar_bucket c = ''Necesidades'' \<longleftrightarrow>
        clasificar_bucket c \<noteq> ''Deseos'' \<and> clasificar_bucket c \<noteq> ''Ahorro''"
    by (simp add: clasificar_bucket_def)
  have 5: "clasificar_bucket ''Deseos'' = ''Deseos''" by code_simp
  have 6: "clasificar_bucket ''  AHORRO '' = ''Ahorro''" by code_simp
  have 7: "clasificar_bucket ''Mercado'' = ''Necesidades''" by code_simp
  have 8: "clasificar_bucket ''anything-else'' = ''Necesidades''" by code_simp
  show ?thesis
    unfolding 2 3 d a using 1 4 5 6 7 8 2 3 d a by blast
qed

theorem clasificar_bucket_total_witness:
  "list_all isspace ''  '' \<and> list_all isspace '' '' \<and> lower ''AHORRO'' = lower ''Ahorro''
   \<and> clasificar_bucket (''  '' @ ''AHORRO'' @ '' '') = ''Ahorro''"
proof -
  have h: "list_all isspace ''  '' \<and> list_all isspace '' '' \<and> lower ''AHORRO'' = lower ''Ahorro''"
    by code_simp
  show ?thesis
    using h clasificar_bucket_total [of "''  '' @ ''AHORRO'' @ '' ''"] by blast
qed


section \<open>Insert, query, delete\<close>

lemma fold_max_ge: "(s::int) \<le> fold max ids s \<and> (\<forall>i\<in>set ids. i \<le> fold max ids s)"
proof (induction ids arbitrary: s)
  case Nil
  show ?case by simp
next
  case (Cons a ids)
  from Cons [of "max a s"] show ?case by auto
qed

lemma fold_max_less: "fold max ids (s::int) < b \<longleftrightarrow> s < b \<and> (\<forall>i\<in>set ids. i < b)"
  by (induction ids arbitrary: s) auto

lemma nuevo_rowid_Some:
  "seq < 9223372036854775807 \<Longrightarrow> \<forall>i\<in>set ids. i < 9223372036854775807 \<Longrightarrow>
   \<exists>n. nuevo_rowid seq ids = Some n \<and> n \<notin> set ids \<and> seq < n"
proof -
  assume "seq < 9223372036854775807" "\<forall>i\<in>set ids. i < 9223372036854775807"
  then have "fold max ids seq < 9223372036854775807" by (simp add: fold_max_less)
  then have "nuevo_rowid seq ids = Some (fold max ids seq + 1)"
    by (simp add: nuevo_rowid_def Let_def)
  moreover have "fold max ids seq + 1 \<notin> set ids" using fold_max_ge [of seq ids] by fastforce
  moreover have "seq < fold max ids seq + 1" using fold_max_ge [of seq ids] by simp
  ultimately show ?thesis by blast
qed

text \<open>
  C6. When the date parses and the keys of the table are not used up, saving an income
  succeeds, and the query for the year and month of its date then returns a row with a fresh
  id, the values that were passed and the amounts derived from them; deleting an income by
  an id that fits a 64-bit integer succeeds, and after a delete that succeeded no query
  returns a row with that id.
\<close>

theorem insertar_obtener_eliminar:
  "(strptime fecha = Some (y, m, dia) \<longrightarrow> seq_ingresos d < 9223372036854775807 \<longrightarrow>
    (\<forall>r\<in>set (ingresos d). id_ingreso r < 9223372036854775807) \<longrightarrow>
      (\<exists>d' r. insertar_ingreso fecha concepto t pn pd pa d = Inr d'
         \<and> r \<in> set (obtener_ingresos d' (Some y) (Some m))
         \<and> id_ingreso r \<notin> id_ingreso ` set (ingresos d)
         \<and> fecha_i r = fecha \<and> anio_i r = y \<and> mes_i r = m \<and> concepto_i r = concepto
         \<and> valor_total r = t \<and> porc_necesidades r = pn \<and> porc_deseos r = pd
         \<and> porc_ahorro r = pa \<and> monto_necesidades r = t * pn / 100
         \<and> monto_deseos r = t * pd / 100 \<and> monto_ahorro r = t * pa / 100))
   \<and> (sqlite_integer i \<longrightarrow>
        (\<exists>d'. eliminar_ingreso i d = Inr d'
           \<and> (\<forall>r\<in>set (obtener_ingresos d' anio mes). id_ingreso r \<noteq> i)))
   \<and> (eliminar_ingreso i d = Inr d'' \<longrightarrow>
        (\<forall>r\<in>set (obtener_ingresos d'' anio mes). id_ingreso r \<noteq> i))"
proof (intro conjI impI)
  assume p: "strptime fecha = Some (y, m, dia)" and s: "seq_ingresos d < 9223372036854775807"
    and ids: "\<forall>r\<in>set (ingresos d). id_ingreso r < 9223372036854775807"
  from ids have "\<forall>i\<in>set (map id_ingreso (ingresos d)). i < 9223372036854775807" by simp
  from nuevo_rowid_Some [OF s this] obtain n
    where n: "nuevo_rowid (seq_ingresos d) (map id_ingreso (ingresos d)) = Some n"
      "n \<notin> set (map id_ingreso (ingresos d))" by blast
  let ?r = "\<lparr>id_ingreso = n, fecha_i = fecha, anio_i = y, mes_i = m,
             concepto_i = concepto, valor_total = t, porc_necesidades = pn, porc_deseos = pd,
             porc_ahorro = pa, monto_necesidades = t * (pn / 100),
             monto_deseos = t * (pd / 100), monto_ahorro = t * (pa / 100)\<rparr>"
  let ?d = "d\<lparr>ingresos := ingresos d @ [?r], seq_ingresos := n\<rparr>"
  have ins: "insertar_ingreso fecha concepto t pn pd pa d = Inr ?d"
    using p n by (simp add: insertar_ingreso_def Let_def)
  have "?r \<in> set (obtener_ingresos ?d (Some y) (Some m))"
    by (simp add: obtener_ingresos_periodo set_order_by_desc)
  moreover have "id_ingreso ?r \<notin> id_ingreso ` set (ingresos d)" using n by simp
  ultimately show "\<exists>d' r. insertar_ingreso fecha concepto t pn pd pa d = Inr d'
         \<and> r \<in> set (obtener_ingresos d' (Some y) (Some m))
         \<and> id_ingreso r \<notin> id_ingreso ` set (ingresos d)
         \<and> fecha_i r = fecha \<and> anio_i r = y \<and> mes_i r = m \<and> concepto_i r = concepto
         \<and> valor_total r = t \<and> porc_necesidades r = pn \<and> porc_deseos r = pd
         \<and> porc_ahorro r = pa \<and> monto_necesidades r = t * pn / 100
         \<and> monto_deseos r = t * pd / 100 \<and> monto_ahorro r = t * pa / 100"
    using ins by (intro exI [of _ ?d] exI [of _ ?r]) simp
next
  assume "sqlite_integer i"
  then show "\<exists>d'. eliminar_ingreso i d = Inr d'
           \<and> (\<forall>r\<in>set (obtener_ingresos d' anio mes). id_ingreso r \<noteq> i)"
    by (auto simp: obtener_ingresos_def eliminar_ingreso_def set_order_by_desc)
next
  assume "eliminar_ingreso i d = Inr d''"
  then show "\<forall>r\<in>set (obtener_ingresos d'' anio mes). id_ingreso r \<noteq> i"
    by (auto simp: obtener_ingresos_def eliminar_ingreso_def set_order_by_desc
        split: if_splits)
qed

theorem insertar_obtener_eliminar_witness:
  "strptime ''2024-03-01'' = Some (2024, 3, 1) \<and> seq_ingresos db_vacia < 9223372036854775807
   \<and> list_all (\<lambda>r. id_ingreso r < 9223372036854775807) (ingresos db_vacia)
   \<and> (\<exists>d' r. insertar_ingreso ''2024-03-01'' ''Salary'' 1000 80 10 10 db_vacia = Inr d'
         \<and> r \<in> set (obtener_ingresos d' (Some 2024) (Some 3))
         \<and> fecha_i r = ''2024-03-01'' \<and> concepto_i r = ''Salary'' \<and> valor_total r = 1000
         \<and> monto_necesidades r = 800 \<and> monto_deseos r = 100 \<and> monto_ahorro r = 100)
   \<and> sqlite_integer 1
   \<and> 1 \<in> id_ingreso ` set (obtener_ingresos db_ejemplo None None)
   \<and> eliminar_ingreso 1 db_ejemplo = Inr db_sin_ingresos
   \<and> 1 \<notin> id_ingreso ` set (obtener_ingresos db_sin_ingresos None None)"
proof -
  have h1: "strptime ''2024-03-01'' = Some (2024, 3, 1)" by code_simp
  have h2: "seq_ingresos db_vacia < 9223372036854775807
     \<and> list_all (\<lambda>r. id_ingreso r < 9223372036854775807) (ingresos db_vacia)"
    by (simp add: db_vacia_def)
  have h3: "1 \<in> id_ingreso ` set (obtener_ingresos db_ejemplo None None)"
    by (simp add: obtener_ingresos_def set_order_by_desc db_ejemplo_def)
  have h4: "sqlite_integer 1" by (simp add: sqlite_integer_def)
  have h5: "eliminar_ingreso 1 db_ejemplo = Inr db_sin_ingresos"
    by (simp add: eliminar_ingreso_def sqlite_integer_def db_sin_ingresos_def db_ejemplo_def)
  from h1 h2 insertar_obtener_eliminar [of "''2024-03-01''" 2024 3 1 db_vacia "''Salary''"
      1000 80 10 10 1 None None db_sin_ingresos]
  have a: "\<exists>d' r. insertar_ingreso ''2024-03-01'' ''Salary'' 1000 80 10 10 db_vacia = Inr d'
         \<and> r \<in> set (obtener_ingresos d' (Some 2024) (Some 3))
         \<and> fecha_i r = ''2024-03-01'' \<and> concepto_i r = ''Salary'' \<and> valor_total r = 1000
         \<and> monto_necesidades r = 800 \<and> monto_deseos r = 100 \<and> monto_ahorro r = 100"
    by (simp add: list_all_iff) blast
  from h5 insertar_obtener_eliminar [of "''2024-03-01''" 2024 3 1 db_ejemplo "''Salary''"
      1000 80 10 10 1 None None db_sin_ingresos, THEN conjunct2, THEN conjunct2]
  have b: "1 \<notin> id_ingreso ` set (obtener_ingresos db_sin_ingresos None None)"
    by auto
  show ?thesis using h1 h2 h3 h4 h5 a b by blast
qed


section \<open>Filters and order of the queries\<close>

text \<open>
  Texts of dates in the form of \<open>fecha_iso\<close> compare as the dates they stand for.
\<close>

lemma num_snoc: "num (u @ [c]) = 10 * num u + digit_val c"
  by (simp add: num_def)

lemma digit_val_range: "digit c \<Longrightarrow> 0 \<le> digit_val c \<and> digit_val c \<le> 9"
  by (auto simp: digit_def digit_val_def less_eq_char_def)

lemma digit_val_less: "c < c' \<longleftrightarrow> digit_val c < digit_val c'"
  by (simp add: digit_val_def less_char_def)

lemma digit_val_eq: "c = c' \<longleftrightarrow> digit_val c = digit_val c'"
  by (auto simp: digit_val_def)

lemma append_less_same_length:
  "length u = length u' \<Longrightarrow> u @ v < u' @ v' \<longleftrightarrow> u < u' \<or> u = u' \<and> v < (v' :: 'a :: linorder list)"
  by (induction u u' rule: list_induct2) auto

lemma append_le_same_length:
  "length u = length u' \<Longrightarrow> u @ v \<le> u' @ v' \<longleftrightarrow> u < u' \<or> u = u' \<and> v \<le> (v' :: 'a :: linorder list)"
  by (induction u u' rule: list_induct2) auto

lemma snoc_less_same_length:
  "length u = length u' \<Longrightarrow> u @ [c] < u' @ [c'] \<longleftrightarrow> u < u' \<or> u = u' \<and> c < (c' :: 'a :: linorder)"
  by (simp add: append_less_same_length)

lemma num_order:
  "length u = length u' \<Longrightarrow> list_all digit u \<Longrightarrow> list_all digit u' \<Longrightarrow>
     (u < u' \<longleftrightarrow> num u < num u') \<and> (u = u' \<longleftrightarrow> num u = num u')"
proof (induction u arbitrary: u' rule: rev_induct)
  case Nil
  then show ?case by (simp add: num_def)
next
  case (snoc c u)
  from snoc.prems obtain v c' where u': "u' = v @ [c']" and len: "length u = length v"
    by (cases u' rule: rev_cases) auto
  from snoc.prems u' have dg: "list_all digit u" "list_all digit v" "digit c" "digit c'"
    by auto
  from snoc.IH [OF len dg(1,2)]
  have ih: "u < v \<longleftrightarrow> num u < num v" "u = v \<longleftrightarrow> num u = num v" by auto
  from digit_val_range dg have r: "0 \<le> digit_val c" "digit_val c \<le> 9" "0 \<le> digit_val c'"
      "digit_val c' \<le> 9" by auto
  have 1: "u @ [c] < v @ [c'] \<longleftrightarrow> num u < num v \<or> num u = num v \<and> digit_val c < digit_val c'"
    using snoc_less_same_length [OF len, of c c'] ih digit_val_less [of c c'] by simp
  have 2: "u @ [c] = v @ [c'] \<longleftrightarrow> num u = num v \<and> digit_val c = digit_val c'"
    using ih digit_val_eq [of c c'] by simp
  have 3: "num u < num v \<or> num u = num v \<and> digit_val c < digit_val c'
        \<longleftrightarrow> 10 * num u + digit_val c < 10 * num v + digit_val c'"
    using r by arith
  have 4: "num u = num v \<and> digit_val c = digit_val c'
        \<longleftrightarrow> 10 * num u + digit_val c = 10 * num v + digit_val c'"
    using r by arith
  show ?case unfolding u' num_snoc using 1 2 3 4 by blast
qed


lemma re_m_iso:
  assumes "digit a" "digit b" "re_m (a # b # CHR ''-'' # rest) = Some (m, r)"
    "r \<noteq> []" "hd r = CHR ''-''"
  shows "m = num [a, b] \<and> tl r = rest"
proof -
  have nb: "b \<noteq> CHR ''-''" using assms(2) by (auto simp: digit_def)
  from assms(3) have
    "(a = CHR ''1'' \<and> m = 10 + digit_val b \<and> r = CHR ''-'' # rest)
     \<or> (a = CHR ''0'' \<and> m = digit_val b \<and> r = CHR ''-'' # rest)
     \<or> r = b # CHR ''-'' # rest"
    by (simp add: re_m_def split: if_splits)
  with assms(5) nb show ?thesis
    by (auto simp: num_def digit_val_def)
qed

lemma re_d_iso:
  assumes "digit a" "digit b" "re_d [a, b] = Some (d, [])"
  shows "d = num [a, b]"
proof -
  from assms(1,3) have
    "(a = CHR ''3'' \<and> d = 30 + digit_val b)
     \<or> ((a = CHR ''1'' \<or> a = CHR ''2'') \<and> d = 10 * digit_val a + digit_val b)
     \<or> (a = CHR ''0'' \<and> d = digit_val b)"
    by (auto simp: re_d_def digit_def split: if_splits)
  then show ?thesis
    by (auto simp: num_def digit_val_def)
qed

lemma length_two: "length xs = 2 \<Longrightarrow> \<exists>a b. xs = [a, b]"
  by (auto simp: numeral_2_eq_2 length_Suc_conv)

lemma fecha_iso_split:
  assumes "fecha_iso s"
  shows "s = take 4 s @ CHR ''-'' # take 2 (drop 5 s) @ CHR ''-'' # drop 8 s"
proof -
  from assms have l: "length s = 10" and h: "s ! 4 = CHR ''-''" "s ! 7 = CHR ''-''"
    by (auto simp: fecha_iso_def)
  have "s = take 4 s @ drop 4 s" by simp
  also have "drop 4 s = s ! 4 # drop 5 s" using l by (simp add: Cons_nth_drop_Suc [symmetric])
  also have "drop 5 s = take 2 (drop 5 s) @ drop 7 s"
    using append_take_drop_id [of 2 "drop 5 s"] by simp
  also have "drop 7 s = s ! 7 # drop 8 s" using l by (simp add: Cons_nth_drop_Suc [symmetric])
  finally show ?thesis using h by simp
qed

lemma length_four: "length xs = 4 \<Longrightarrow> \<exists>a b c d. xs = [a, b, c, d]"
  by (auto simp: eval_nat_numeral length_Suc_conv)

lemma fecha_iso_explode:
  assumes "fecha_iso s"
  shows "\<exists>c0 c1 c2 c3 a b e f. s = [c0, c1, c2, c3, CHR ''-'', a, b, CHR ''-'', e, f]
           \<and> digit a \<and> digit b \<and> digit e \<and> digit f"
proof -
  from assms have l: "length s = 10" by (simp add: fecha_iso_def)
  from assms have dm: "list_all digit (take 2 (drop 5 s))" and dd: "list_all digit (drop 8 s)"
    by (auto simp: fecha_iso_def)
  from l have "length (take 4 s) = 4" by simp
  then obtain c0 c1 c2 c3 where c: "take 4 s = [c0, c1, c2, c3]" using length_four by blast
  from l have "length (take 2 (drop 5 s)) = 2" by simp
  then obtain a b where ab: "take 2 (drop 5 s) = [a, b]" using length_two by blast
  from l have "length (drop 8 s) = 2" by simp
  then obtain e f where ef: "drop 8 s = [e, f]" using length_two by blast
  from fecha_iso_split [OF assms] c ab ef
  have "s = [c0, c1, c2, c3, CHR ''-'', a, b, CHR ''-'', e, f]" by simp
  moreover from dm dd ab ef have "digit a \<and> digit b \<and> digit e \<and> digit f" by simp
  ultimately show ?thesis by blast
qed

lemma strptime_iso:
  assumes iso: "fecha_iso s" and p: "strptime s = Some (y, m, d)"
  shows "y = num (take 4 s) \<and> m = num (take 2 (drop 5 s)) \<and> d = num (drop 8 s)"
proof -
  from fecha_iso_explode [OF iso] obtain c0 c1 c2 c3 a b e f
    where s: "s = [c0, c1, c2, c3, CHR ''-'', a, b, CHR ''-'', e, f]"
      and dg: "digit a" "digit b" "digit e" "digit f" by blast
  from p obtain r r' where
      y: "y = 1000 * digit_val c0 + 100 * digit_val c1 + 10 * digit_val c2 + digit_val c3"
      and rm: "re_m (a # b # CHR ''-'' # [e, f]) = Some (m, r)" "r \<noteq> []" "hd r = CHR ''-''"
      and rd: "re_d (tl r) = Some (d, r')" "r' = []"
    unfolding s strptime_def Let_def
    by (auto split: if_splits option.splits)
  from re_m_iso [OF dg(1,2) rm] have m: "m = num [a, b]" and t: "tl r = [e, f]" by auto
  from rd t have "re_d [e, f] = Some (d, [])" by simp
  from re_d_iso [OF dg(3,4) this] have d: "d = num [e, f]" .
  from y have "y = num [c0, c1, c2, c3]" by (simp add: num_def)
  with m d show ?thesis unfolding s by simp
qed


lemma fecha_iso_le:
  assumes a: "fecha_iso a" "strptime a = Some x" and b: "fecha_iso b" "strptime b = Some z"
  shows "a \<le> b \<longleftrightarrow> x \<le> z"
proof -
  let ?ya = "take 4 a" and ?ma = "take 2 (drop 5 a)" and ?da = "drop 8 a"
  let ?yb = "take 4 b" and ?mb = "take 2 (drop 5 b)" and ?db = "drop 8 b"
  obtain y m d where x: "x = (y, m, d)" by (cases x) auto
  obtain y' m' d' where z: "z = (y', m', d')" by (cases z) auto
  from strptime_iso [OF a(1)] a(2) x
  have nx: "y = num ?ya" "m = num ?ma" "d = num ?da" by auto
  from strptime_iso [OF b(1)] b(2) z
  have nz: "y' = num ?yb" "m' = num ?mb" "d' = num ?db" by auto
  from a(1) b(1) have ly: "length ?ya = length ?yb" and lm: "length ?ma = length ?mb"
    and ld: "length ?da = length ?db"
    by (auto simp: fecha_iso_def)
  from a(1) b(1) have dg: "list_all digit ?ya" "list_all digit ?yb" "list_all digit ?ma"
      "list_all digit ?mb" "list_all digit ?da" "list_all digit ?db"
    by (auto simp: fecha_iso_def)
  from num_order [OF ly dg(1,2)] nx nz
  have oy: "?ya < ?yb \<longleftrightarrow> y < y'" "?ya = ?yb \<longleftrightarrow> y = y'" by auto
  from num_order [OF lm dg(3,4)] nx nz
  have om: "?ma < ?mb \<longleftrightarrow> m < m'" "?ma = ?mb \<longleftrightarrow> m = m'" by auto
  from num_order [OF ld dg(5,6)] nx nz
  have od: "?da < ?db \<longleftrightarrow> d < d'" "?da = ?db \<longleftrightarrow> d = d'" by auto
  have "a \<le> b \<longleftrightarrow> ?ya @ CHR ''-'' # ?ma @ CHR ''-'' # ?da \<le> ?yb @ CHR ''-'' # ?mb @ CHR ''-'' # ?db"
    using fecha_iso_split [OF a(1)] fecha_iso_split [OF b(1)] by simp
  also have "\<dots> \<longleftrightarrow> ?ya < ?yb \<or> ?ya = ?yb \<and> (?ma < ?mb \<or> ?ma = ?mb \<and> ?da \<le> ?db)"
    by (simp only: append_le_same_length [OF ly] append_le_same_length [OF lm] Cons_le_Cons)
       simp
  also have "\<dots> \<longleftrightarrow> y < y' \<or> y = y' \<and> (m < m' \<or> m = m' \<and> d \<le> d')"
    using oy om od by (auto simp: le_less)
  also have "\<dots> \<longleftrightarrow> x \<le> z"
    unfolding x z by auto
  finally show ?thesis .
qed

lemma sorted_fechas_calendario:
  assumes "sorted_wrt (\<lambda>a b. b \<le> a) fs"
    and "\<forall>f\<in>set fs. fecha_iso f \<and> strptime f \<noteq> None"
  shows "sorted_wrt (\<lambda>a b. the (strptime b) \<le> the (strptime a)) fs"
proof (rule sorted_wrt_mono_rel [OF _ assms(1)])
  fix a b
  assume ab: "a \<in> set fs" "b \<in> set fs" "b \<le> a"
  from assms(2) ab have ia: "fecha_iso a" and ib: "fecha_iso b" by auto
  from assms(2) ab obtain x where x: "strptime a = Some x" by blast
  from assms(2) ab obtain z where z: "strptime b = Some z" by blast
  from fecha_iso_le [OF ib z ia x] ab(3) x z
  show "the (strptime b) \<le> the (strptime a)" by simp
qed

lemma set_obtener_ingresos: "set (obtener_ingresos d anio mes) \<subseteq> set (ingresos d)"
  by (auto simp: obtener_ingresos_def set_order_by_desc)

lemma set_obtener_gastos: "set (obtener_gastos d anio mes) \<subseteq> set (gastos d)"
  by (auto simp: obtener_gastos_def set_order_by_desc)

lemma db_tres_fechas_orden:
  "map fecha_i (obtener_ingresos db_tres_fechas None None)
     = [''2024-03-10'', ''2024-03-05'', ''2023-12-31'']
   \<and> map fecha_i (obtener_ingresos db_tres_fechas (Some 2024) None)
     = [''2024-03-10'', ''2024-03-05'']
   \<and> map fecha_g (obtener_gastos db_tres_fechas (Some 2024) (Some 3)) = [''2024-03-05'']"
  by code_simp

text \<open>
  A date written without the leading zeros parses as well and is stored as it was passed;
  its text does not compare as the date does. After the two inserts the query returns the
  fifth of March before the tenth.
\<close>

theorem obtener_filtros_y_orden_counterexample:
  "insertar_ingreso ''2024-03-10'' ''Salary'' 1000 80 10 10 db_vacia = Inr db_diez_marzo
   \<and> insertar_ingreso ''2024-3-5'' ''Bono'' 200 80 10 10 db_diez_marzo = Inr db_sin_ceros
   \<and> map fecha_i (obtener_ingresos db_sin_ceros None None) = [''2024-3-5'', ''2024-03-10'']
   \<and> map fecha_i (obtener_ingresos db_sin_ceros (Some 2024) None) = [''2024-3-5'', ''2024-03-10'']
   \<and> map fecha_i (obtener_ingresos db_sin_ceros (Some 2024) (Some 3))
       = [''2024-3-5'', ''2024-03-10'']
   \<and> strptime ''2024-3-5'' = Some (2024, 3, 5)
   \<and> strptime ''2024-03-10'' = Some (2024, 3, 10)
   \<and> ((2024, 3, 5) :: int \<times> int \<times> int) < (2024, 3, 10)"
  by code_simp

text \<open>
  C7. Both queries have three modes: without a year every row of the table, with a year the
  rows of that year, with a year and a month the rows of that year and month. In every mode
  the rows come in descending order of the text of their date, and so in descending order of
  the dates themselves when every date of the table is written with four, two and two
  digits, as the pages write them.
\<close>

theorem obtener_filtros_y_orden:
  "mset (obtener_ingresos d None None) = mset (ingresos d)
   \<and> mset (obtener_ingresos d (Some y) None) = mset (filter (\<lambda>r. anio_i r = y) (ingresos d))
   \<and> mset (obtener_ingresos d (Some y) (Some m)) =
       mset (filter (\<lambda>r. anio_i r = y \<and> mes_i r = m) (ingresos d))
   \<and> sorted_wrt (\<lambda>a b. b \<le> a) (map fecha_i (obtener_ingresos d anio mes))
   \<and> ((\<forall>r\<in>set (ingresos d). fecha_iso (fecha_i r) \<and> strptime (fecha_i r) \<noteq> None) \<longrightarrow>
        sorted_wrt (\<lambda>a b. the (strptime b) \<le> the (strptime a))
          (map fecha_i (obtener_ingresos d anio mes)))
   \<and> mset (obtener_gastos d None None) = mset (gastos d)
   \<and> mset (obtener_gastos d (Some y) None) = mset (filter (\<lambda>r. anio_g r = y) (gastos d))
   \<and> mset (obtener_gastos d (Some y) (Some m)) =
       mset (filter (\<lambda>r. anio_g r = y \<and> mes_g r = m) (gastos d))
   \<and> sorted_wrt (\<lambda>a b. b \<le> a) (map fecha_g (obtener_gastos d anio mes))
   \<and> ((\<forall>r\<in>set (gastos d). fecha_iso (fecha_g r) \<and> strptime (fecha_g r) \<noteq> None) \<longrightarrow>
        sorted_wrt (\<lambda>a b. the (strptime b) \<le> the (strptime a))
          (map fecha_g (obtener_gastos d anio mes)))"
proof -
  have modes: "mset (obtener_ingresos d None None) = mset (ingresos d)
     \<and> mset (obtener_ingresos d (Some y) None) = mset (filter (\<lambda>r. anio_i r = y) (ingresos d))
     \<and> mset (obtener_ingresos d (Some y) (Some m)) =
         mset (filter (\<lambda>r. anio_i r = y \<and> mes_i r = m) (ingresos d))
     \<and> mset (obtener_gastos d None None) = mset (gastos d)
     \<and> mset (obtener_gastos d (Some y) None) = mset (filter (\<lambda>r. anio_g r = y) (gastos d))
     \<and> mset (obtener_gastos d (Some y) (Some m)) =
         mset (filter (\<lambda>r. anio_g r = y \<and> mes_g r = m) (gastos d))"
    by (simp add: obtener_ingresos_def obtener_gastos_def mset_order_by_desc del: mset_filter)
  have oi: "sorted_wrt (\<lambda>a b. b \<le> a) (map fecha_i (obtener_ingresos d anio mes))"
    by (simp add: obtener_ingresos_def desc_order_by_desc)
  have og: "sorted_wrt (\<lambda>a b. b \<le> a) (map fecha_g (obtener_gastos d anio mes))"
    by (simp add: obtener_gastos_def desc_order_by_desc)
  have ci: "sorted_wrt (\<lambda>a b. the (strptime b) \<le> the (strptime a))
              (map fecha_i (obtener_ingresos d anio mes))"
    if "\<forall>r\<in>set (ingresos d). fecha_iso (fecha_i r) \<and> strptime (fecha_i r) \<noteq> None"
  proof (rule sorted_fechas_calendario [OF oi])
    show "\<forall>f\<in>set (map fecha_i (obtener_ingresos d anio mes)). fecha_iso f \<and> strptime f \<noteq> None"
      using that set_obtener_ingresos [of d anio mes] by auto
  qed
  have cg: "sorted_wrt (\<lambda>a b. the (strptime b) \<le> the (strptime a))
              (map fecha_g (obtener_gastos d anio mes))"
    if "\<forall>r\<in>set (gastos d). fecha_iso (fecha_g r) \<and> strptime (fecha_g r) \<noteq> None"
  proof (rule sorted_fechas_calendario [OF og])
    show "\<forall>f\<in>set (map fecha_g (obtener_gastos d anio mes)). fecha_iso f \<and> strptime f \<noteq> None"
      using that set_obtener_gastos [of d anio mes] by auto
  qed
  show ?thesis using modes oi og ci cg by blast
qed

theorem obtener_filtros_y_orden_witness:
  "list_all (\<lambda>r. fecha_iso (fecha_i r) \<and> strptime (fecha_i r) \<noteq> None)
     (ingresos db_tres_fechas)
   \<and> list_all (\<lambda>r. fecha_iso (fecha_g r) \<and> strptime (fecha_g r) \<noteq> None)
     (gastos db_tres_fechas)
   \<and> sorted_wrt (\<lambda>a b. the (strptime b) \<le> the (strptime a))
        (map fecha_i (obtener_ingresos db_tres_fechas None None))
   \<and> sorted_wrt (\<lambda>a b. the (strptime b) \<le> the (strptime a))
        (map fecha_g (obtener_gastos db_tres_fechas None None))"
proof -
  have h1: "list_all (\<lambda>r. fecha_iso (fecha_i r) \<and> strptime (fecha_i r) \<noteq> None)
     (ingresos db_tres_fechas)"
    by code_simp
  have h2: "list_all (\<lambda>r. fecha_iso (fecha_g r) \<and> strptime (fecha_g r) \<noteq> None)
     (gastos db_tres_fechas)"
    by code_simp
  show ?thesis
    using h1 h2 obtener_filtros_y_orden [of db_tres_fechas 2024 3 None None]
    unfolding list_all_iff by blast
qed

end
